theory Spec2Isabelle
  imports Main
begin

section \<open>Python values, errors and small string helpers\<close>

text \<open>
  A Python value as far as the two modules look at it: a list (\<open>type(v) is list\<close>), an
  integer, a boolean, \<open>None\<close>, or a value of any other type, which is kept as the text
  that \<open>repr\<close> gives for it.
\<close>

datatype pyval = PyNone | PyBool bool | PyInt int | PyOther string | PyList "pyval list"

text \<open>Every \<open>raise\<close> the modelled code can reach is a value of this type.\<close>

datatype error = IndexError | ValueError | InternalError

definition bind_r :: "error + 'a \<Rightarrow> ('a \<Rightarrow> error + 'b) \<Rightarrow> error + 'b" where
  "bind_r m f = (case m of Inl e \<Rightarrow> Inl e | Inr x \<Rightarrow> f x)"

text \<open>\<open>str.lower\<close> on the ASCII letters, which is all the catalog's names contain.\<close>

definition lower_char :: "char \<Rightarrow> char" where
  "lower_char c =
     (let n = (of_char c :: nat) in if 65 \<le> n \<and> n \<le> 90 then char_of (n + 32) else c)"

definition lower :: "string \<Rightarrow> string" where
  "lower s = map lower_char s"

section \<open>foppl/code\_types and foppl/code\_objects, as far as distributions.py reads them\<close>

text \<open>
  Modelled from the spec: the module \<open>code_types\<close> is not among the sources. The spec's
  Type is a tagged variant \<open>AnyType\<close>, \<open>IntegerType\<close>, \<open>FloatType\<close>,
  \<open>SequenceType{element_type, size}\<close> with a size that is a non-negative integer or
  unknown. The source tests two classes, \<open>SequenceType\<close> and \<open>ListType\<close>, and builds
  \<open>ListType\<close> where callers test \<open>SequenceType\<close>, so \<open>ListType\<close> is a subclass: the
  class of a sequence type is kept as a tag. \<open>IntegerType_class\<close> is the class object
  \<open>IntegerType\<close> itself (not an instance), which \<open>CategoricalDistribution\<close> passes as
  an item type.
\<close>

datatype seq_class = PlainSequence | IsListType

datatype ty =
    AnyType
  | IntegerType
  | FloatType
  | IntegerType_class
  | SequenceType (seq_cls: seq_class) (item_type: ty) (seq_size: "nat option")

definition ListType :: "ty \<Rightarrow> nat option \<Rightarrow> ty" where
  "ListType item n = SequenceType IsListType item n"

fun isinstance_SequenceType :: "ty \<Rightarrow> bool" where
  "isinstance_SequenceType (SequenceType c i n) = True"
| "isinstance_SequenceType t = False"

fun isinstance_ListType :: "ty \<Rightarrow> bool" where
  "isinstance_ListType (SequenceType IsListType i n) = True"
| "isinstance_ListType t = False"

text \<open>
  Modelled from the spec: the module \<open>code_objects\<close> is not among the sources. The spec's
  ArgumentShape is one of four representations: a literal constant holding a nested list
  value (\<open>CodeValue\<close>, field \<open>value\<close>), a vector-construction node holding a sequence
  of sub-expressions (\<open>CodeVector\<close>, field \<open>items\<close>), a reference to a named data
  table whose rows are lists (\<open>CodeDataSymbol\<close>, field \<open>node.data\<close>), and any
  expression carrying an already-known Type (\<open>CodeObject\<close>). Every one of them has a
  \<open>code_type\<close>, the last component here.
\<close>

datatype code_object =
    CodeValue pyval ty
  | CodeVector "code_object list" ty
  | CodeDataSymbol "pyval list" ty
  | CodeObject ty

fun code_type :: "code_object \<Rightarrow> ty" where
  "code_type (CodeValue v t) = t"
| "code_type (CodeVector items t) = t"
| "code_type (CodeDataSymbol rows t) = t"
| "code_type (CodeObject t) = t"

fun type_is_list :: "pyval \<Rightarrow> bool" where
  "type_is_list (PyList xs) = True"
| "type_is_list v = False"

text \<open>\<open>len\<close> of a Python value; the source applies it only under \<open>type(item) is list\<close>.\<close>

fun len_value :: "pyval \<Rightarrow> nat" where
  "len_value (PyList xs) = length xs"
| "len_value v = 0"

text \<open>
  Modelled from the spec: \<open>__len__\<close> of the code objects is not among the sources. The
  spec counts the items of a vector-construction node, the length of a literal list and the
  rows of a data table.
\<close>

fun len_code :: "code_object \<Rightarrow> nat" where
  "len_code (CodeVector items t) = length items"
| "len_code (CodeValue v t) = len_value v"
| "len_code (CodeDataSymbol rows t) = length rows"
| "len_code (CodeObject t) = 0"

text \<open>Python's \<open>max\<close> of a list: ValueError on the empty list.\<close>

fun py_max :: "nat list \<Rightarrow> error + nat" where
  "py_max [] = Inl ValueError"
| "py_max (x # xs) = Inr (fold max xs x)"

section \<open>foppl/distributions.py\<close>

datatype DistributionType = CONTINUOUS | DISCRETE

text \<open>The class of a descriptor object: the base class or one of its two subclasses.\<close>

datatype dist_class = Distribution | BinomialDistribution | CategoricalDistribution

record distribution =
  cls :: dist_class
  name :: string
  foppl_name :: string
  python_name :: string
  distribution_type :: DistributionType
  params :: "string list"
  has_transform_flag :: bool
  vector_sample :: bool
  transform_forward :: "string option"
  transform_inverse :: "string option"
  transform_distribution :: "string option"

text \<open>The keyword-only arguments of \<open>Distribution.__init__\<close>, with their defaults.\<close>

record kwargs =
  kw_has_transform_flag :: bool
  kw_vector_sample :: bool
  kw_transform_forward :: "string option"
  kw_transform_inverse :: "string option"
  kw_transform_distribution :: "string option"
  kw_transforms :: "(string \<times> string \<times> string) option"
  kw_foppl_name :: "string option"
  kw_python_name :: "string option"

definition defaults :: kwargs where
  "defaults = \<lparr> kw_has_transform_flag = False, kw_vector_sample = False,
     kw_transform_forward = None, kw_transform_inverse = None,
     kw_transform_distribution = None, kw_transforms = None,
     kw_foppl_name = None, kw_python_name = None \<rparr>"

definition or_else :: "'a option \<Rightarrow> 'a option \<Rightarrow> 'a option" where
  "or_else given fallback = (case given of None \<Rightarrow> fallback | Some v \<Rightarrow> Some v)"

definition init :: "dist_class \<Rightarrow> string \<Rightarrow> DistributionType option \<Rightarrow> string list option
    \<Rightarrow> kwargs \<Rightarrow> distribution" where
  "init c nm distributions_type ps kw =
     \<lparr> cls = c,
       name = nm,
       foppl_name = (case kw_foppl_name kw of None \<Rightarrow> lower nm | Some f \<Rightarrow> f),
       python_name = (case kw_python_name kw of None \<Rightarrow> nm | Some p \<Rightarrow> p),
       distribution_type = (case distributions_type of None \<Rightarrow> CONTINUOUS | Some t \<Rightarrow> t),
       params = (case ps of None \<Rightarrow> [] | Some l \<Rightarrow> l),
       has_transform_flag = kw_has_transform_flag kw,
       vector_sample = kw_vector_sample kw,
       transform_forward =
         (case kw_transforms kw of None \<Rightarrow> kw_transform_forward kw
          | Some (fd, iv, dist) \<Rightarrow> or_else (kw_transform_forward kw) (Some fd)),
       transform_inverse =
         (case kw_transforms kw of None \<Rightarrow> kw_transform_inverse kw
          | Some (fd, iv, dist) \<Rightarrow> or_else (kw_transform_inverse kw) (Some iv)),
       transform_distribution =
         (case kw_transforms kw of None \<Rightarrow> kw_transform_distribution kw
          | Some (fd, iv, dist) \<Rightarrow> or_else (kw_transform_distribution kw) (Some dist)) \<rparr>"

definition get_parameter_count :: "distribution \<Rightarrow> nat" where
  "get_parameter_count self = length (params self)"

definition is_continuous :: "distribution \<Rightarrow> bool" where
  "is_continuous self \<longleftrightarrow> distribution_type self = CONTINUOUS"

definition is_discrete :: "distribution \<Rightarrow> bool" where
  "is_discrete self \<longleftrightarrow> distribution_type self = DISCRETE"

definition get_transformations :: "distribution \<Rightarrow> string option \<times> string option \<times> string option" where
  "get_transformations self = (transform_forward self, transform_inverse self, transform_distribution self)"

subsection \<open>get\_sample\_type\<close>

text \<open>\<open>Distribution.get_sample_type\<close>, the rule of the base class.\<close>

definition Distribution_get_sample_type :: "distribution \<Rightarrow> ty list \<Rightarrow> ty" where
  "Distribution_get_sample_type self args =
     (let result = (if distribution_type self = CONTINUOUS then FloatType else IntegerType) in
      if vector_sample self \<and> length args > 0 then
        (if isinstance_SequenceType (args ! 0) then ListType result (seq_size (args ! 0))
         else result)
      else result)"

text \<open>
  \<open>BinomialDistribution.get_sample_type\<close>: the source assigns the list type to a local
  \<open>result\<close> and then returns \<open>IntegerType()\<close>; the local is never read.
\<close>

definition Binomial_get_sample_type :: "distribution \<Rightarrow> ty list \<Rightarrow> ty" where
  "Binomial_get_sample_type self args =
     (let result =
        (if vector_sample self \<and> length args \<ge> 2 \<and> isinstance_SequenceType (args ! 1)
         then Some (ListType IntegerType (seq_size (args ! 1))) else None)
      in IntegerType)"

text \<open>
  \<open>CategoricalDistribution.get_sample_type\<close>: the first return passes the class
  \<open>IntegerType\<close>, the second an instance \<open>IntegerType()\<close>.
\<close>

definition Categorical_get_sample_type :: "distribution \<Rightarrow> ty list \<Rightarrow> ty" where
  "Categorical_get_sample_type self args =
     (if length args = 1 then
        (let arg = args ! 0 in
         if isinstance_ListType arg \<and> isinstance_ListType (item_type arg)
         then ListType IntegerType_class (seq_size arg)
         else if isinstance_SequenceType arg then IntegerType
         else AnyType)
      else AnyType)"

text \<open>The method call \<open>dist.get_sample_type(args)\<close>, dispatched on the object's class.\<close>

definition get_sample_type :: "distribution \<Rightarrow> ty list \<Rightarrow> ty" where
  "get_sample_type self args =
     (case cls self of
        Distribution \<Rightarrow> Distribution_get_sample_type self args
      | BinomialDistribution \<Rightarrow> Binomial_get_sample_type self args
      | CategoricalDistribution \<Rightarrow> Categorical_get_sample_type self args)"

subsection \<open>get\_support\_size\<close>

fun is_vector :: "code_object \<Rightarrow> bool" where
  "is_vector (CodeVector items t) = True"
| "is_vector (CodeValue v t) = type_is_list v"
| "is_vector c = False"

text \<open>The last two branches of \<open>_get_support_size\<close>, which read \<open>arg.code_type\<close>.\<close>

definition support_size_of_type :: "ty \<Rightarrow> nat option" where
  "support_size_of_type t =
     (if isinstance_SequenceType t then
        (if isinstance_SequenceType (item_type t) then seq_size (item_type t) else seq_size t)
      else None)"

text \<open>The list comprehensions over the rows of a literal or of a data table.\<close>

definition rows_support_size :: "pyval list \<Rightarrow> error + nat option" where
  "rows_support_size rows =
     (if list_all type_is_list rows then map_sum id Some (py_max (map len_value rows))
      else Inr (Some (length rows)))"

fun get_support_size_arg :: "distribution \<Rightarrow> code_object \<Rightarrow> error + nat option" where
  "get_support_size_arg self (CodeValue v t) =
     (case v of
        PyList rows \<Rightarrow> rows_support_size rows
      | _ \<Rightarrow> Inr (support_size_of_type t))"
| "get_support_size_arg self (CodeVector items t) =
     (if length items > 0 then
        (if list_all is_vector items then map_sum id Some (py_max (map len_code items))
         else Inr (Some (length items)))
      else Inr (support_size_of_type t))"
| "get_support_size_arg self (CodeDataSymbol rows t) =
     (if length rows > 0 then rows_support_size rows
      else Inr (support_size_of_type t))"
| "get_support_size_arg self (CodeObject t) = Inr (support_size_of_type t)"

text \<open>\<open>args[i]\<close>: IndexError when the list is too short.\<close>

definition index :: "'a list \<Rightarrow> nat \<Rightarrow> error + 'a" where
  "index xs i = (if i < length xs then Inr (xs ! i) else Inl IndexError)"

text \<open>
  \<open>get_support_size\<close>: the base class probes \<open>args[0]\<close>, \<open>BinomialDistribution\<close>
  overrides it and probes \<open>args[1]\<close>.
\<close>

definition get_support_size :: "distribution \<Rightarrow> code_object list \<Rightarrow> error + nat option" where
  "get_support_size self args =
     (case cls self of
        BinomialDistribution \<Rightarrow> bind_r (index args 1) (get_support_size_arg self)
      | _ \<Rightarrow> bind_r (index args 0) (get_support_size_arg self))"

subsection \<open>The catalog\<close>

definition Bernoulli :: distribution where
  "Bernoulli = init Distribution ''Bernoulli'' (Some DISCRETE) (Some [''probs'']) defaults"

definition Beta :: distribution where
  "Beta = init Distribution ''Beta'' (Some CONTINUOUS)
     (Some [''concentration0'', ''concentration1'']) defaults"

definition Binomial :: distribution where
  "Binomial = init BinomialDistribution ''Binomial'' (Some CONTINUOUS)
     (Some [''total_count'', ''probs'']) defaults"

definition Categorical :: distribution where
  "Categorical = init CategoricalDistribution ''Categorical'' (Some DISCRETE)
     (Some [''probs'']) defaults"

definition Cauchy :: distribution where
  "Cauchy = init Distribution ''Cauchy'' (Some CONTINUOUS) (Some [''loc'', ''gamma'']) defaults"

definition Dirichlet :: distribution where
  "Dirichlet = init Distribution ''Dirichlet'' (Some CONTINUOUS) (Some [''concentration0''])
     (defaults \<lparr> kw_vector_sample := True \<rparr>)"

definition Discrete :: distribution where
  "Discrete = init Distribution ''Discrete'' (Some DISCRETE) None defaults"

definition Exponential :: distribution where
  "Exponential = init Distribution ''Exponential'' (Some CONTINUOUS) (Some [''rate''])
     (defaults \<lparr> kw_has_transform_flag := True \<rparr>)"

definition Gamma :: distribution where
  "Gamma = init Distribution ''Gamma'' (Some CONTINUOUS)
     (Some [''concentration0'', ''concentration1''])
     (defaults \<lparr> kw_has_transform_flag := True,
        kw_transforms := Some (''bijector.Log'', ''bijector.Exp'', ''LogGamma'') \<rparr>)"

definition HalfCauchy :: distribution where
  "HalfCauchy = init Distribution ''HalfCauchy'' (Some CONTINUOUS) (Some [''loc'', ''gamma''])
     (defaults \<lparr> kw_foppl_name := Some ''half_cauchy'' \<rparr>)"

definition LogGamma :: distribution where
  "LogGamma = init Distribution ''LogGamma'' (Some CONTINUOUS)
     (Some [''concentration0'', ''concentration1''])
     (defaults \<lparr> kw_has_transform_flag := True, kw_foppl_name := Some '''' \<rparr>)"

definition LogNormal :: distribution where
  "LogNormal = init Distribution ''LogNormal'' (Some CONTINUOUS) (Some [''loc'', ''scale''])
     (defaults \<lparr> kw_foppl_name := Some ''log_normal'' \<rparr>)"

definition Multinomial :: distribution where
  "Multinomial = init Distribution ''Multinomial'' (Some DISCRETE)
     (Some [''total_count'', ''probs'']) defaults"

definition MultivariateNormal :: distribution where
  "MultivariateNormal = init Distribution ''MultivariateNormal'' (Some CONTINUOUS)
     (Some [''loc'', ''covariance_matrix''])
     (defaults \<lparr> kw_foppl_name := Some ''mvn'', kw_vector_sample := True \<rparr>)"

definition Normal :: distribution where
  "Normal = init Distribution ''Normal'' (Some CONTINUOUS) (Some [''loc'', ''scale'']) defaults"

definition Poisson :: distribution where
  "Poisson = init Distribution ''Poisson'' (Some DISCRETE) (Some [''rate'']) defaults"

definition Uniform :: distribution where
  "Uniform = init Distribution ''Uniform'' (Some CONTINUOUS) (Some [''low'', ''high'']) defaults"

text \<open>
  \<open>distributions\<close> is a Python set of descriptor objects. A \<open>for\<close> loop over it visits
  every element once, in an order the language does not fix; \<open>catalog\<close> lists the
  elements in the order the source writes them, and \<open>iteration_order ds\<close> says that
  \<open>ds\<close> is one of the orders a loop over the set can take.
\<close>

definition catalog :: "distribution list" where
  "catalog = [Bernoulli, Beta, Binomial, Categorical, Cauchy, Dirichlet, Discrete, Exponential,
     Gamma, HalfCauchy, LogGamma, LogNormal, Multinomial, MultivariateNormal, Normal, Poisson,
     Uniform]"

definition distributions :: "distribution set" where
  "distributions = set catalog"

definition iteration_order :: "distribution list \<Rightarrow> bool" where
  "iteration_order ds \<longleftrightarrow> distinct ds \<and> set ds = distributions"

text \<open>
  \<open>foppl_distributions_map\<close>, the dict comprehension keyed by the source alias, which
  leaves out the descriptors whose alias is empty; a later element overwrites an earlier
  one with the same key.
\<close>

definition foppl_distributions_map :: "distribution list \<Rightarrow> (string \<rightharpoonup> distribution)" where
  "foppl_distributions_map ds =
     fold (\<lambda>d m. if foppl_name d \<noteq> [] then m(foppl_name d \<mapsto> d) else m) ds Map.empty"

text \<open>
  \<open>get_distribution_for_name\<close>: the loop over the set, in the iteration order \<open>ds\<close>,
  returning the first descriptor one of whose three names equals \<open>name\<close>.
\<close>

fun get_distribution_for_name :: "distribution list \<Rightarrow> string \<Rightarrow> distribution option" where
  "get_distribution_for_name [] nm = None"
| "get_distribution_for_name (dist # ds) nm =
     (if name dist = nm \<or> python_name dist = nm \<or> foppl_name dist = nm then Some dist
      else get_distribution_for_name ds nm)"

definition get_result_type :: "distribution list \<Rightarrow> string \<Rightarrow> ty list \<Rightarrow> ty" where
  "get_result_type ds nm args =
     (case get_distribution_for_name ds nm of
        Some dist \<Rightarrow> get_sample_type dist args
      | None \<Rightarrow> AnyType)"

section \<open>pyppl/ppl\_clojure\_repr.py\<close>

subsection \<open>Strings\<close>

definition newline :: char where
  "newline = CHR 0x0A"

definition apostrophe :: char where
  "apostrophe = CHR 0x27"

text \<open>\<open>sep.join(xs)\<close>.\<close>

fun join :: "string \<Rightarrow> string list \<Rightarrow> string" where
  "join sep [] = []"
| "join sep [x] = x"
| "join sep (x # y # ys) = x @ sep @ join sep (y # ys)"

text \<open>\<open>s.replace('\n', '\n' + indent)\<close>.\<close>

definition replace_newline :: "string \<Rightarrow> string \<Rightarrow> string" where
  "replace_newline indent s = concat (map (\<lambda>c. if c = newline then newline # indent else [c]) s)"

text \<open>\<open>' ' * indent\<close>.\<close>

definition spaces :: "nat \<Rightarrow> string" where
  "spaces n = replicate n (CHR '' '')"

text \<open>\<open>str\<close> of a non-negative integer, in decimal.\<close>

fun digits :: "nat \<Rightarrow> string" where
  "digits n = (if n < 10 then [char_of (48 + n)] else digits (n div 10) @ [char_of (48 + n mod 10)])"

text \<open>
  \<open>repr\<close> of a Python value: integers in decimal, the two booleans and \<open>None\<close> by
  name, a list as its items' \<open>repr\<close> between brackets, any other value by the text it
  carries.
\<close>

fun repr :: "pyval \<Rightarrow> string" where
  "repr PyNone = ''None''"
| "repr (PyBool b) = (if b then ''True'' else ''False'')"
| "repr (PyInt i) = (if i < 0 then ''-'' @ digits (nat (- i)) else digits (nat i))"
| "repr (PyOther s) = s"
| "repr (PyList xs) = ''['' @ join '', '' (map repr xs) @ '']''"

text \<open>How \<open>str.format\<close> prints a value that is a string or \<open>None\<close>.\<close>

definition format_opt :: "string option \<Rightarrow> string" where
  "format_opt v = (case v of None \<Rightarrow> ''None'' | Some s \<Rightarrow> s)"

subsection \<open>The tree\<close>

text \<open>
  A name as \<open>visit_name\<close> receives it: a string, a tuple of strings, or any other
  object, kept as the text \<open>repr\<close> gives for it.
\<close>

datatype target = NameStr string | NameTuple "string list" | NameOther string

text \<open>
  Modelled from the spec: the module \<open>ppl_ast\<close> with the node classes is not among the
  sources. The spec's ASTNode is a tagged variant with one variant per syntactic construct;
  each constructor here carries the fields that the visitor of that class reads, in this
  order:
  \<^item> \<open>AstAttribute base attr\<close>, \<open>AstBinary left op right\<close>, \<open>AstBody items\<close>,
    \<open>AstBreak\<close>;
  \<^item> \<open>AstCall function args keyword_args\<close>, where \<open>keyword_args\<close> lists the keys of
    the dict in its order, each with the text that \<open>str.format\<close> prints for its value
    (the visitor formats the value, it does not visit it);
  \<^item> \<open>AstCompare left op right second_op second_right\<close>;
  \<^item> \<open>AstDef name value\<close>, \<open>AstFor target source body\<close>,
    \<open>AstFunction parameters vararg body\<close>, \<open>AstIf test if_node else_node\<close>,
    \<open>AstImport module_name imported_names alias\<close>, \<open>AstLet targets sources body\<close>,
    \<open>AstListFor target source expr\<close>, \<open>AstObserve dist value\<close>, \<open>AstReturn value\<close>,
    \<open>AstSample dist\<close>, \<open>AstSlice base start stop\<close>, \<open>AstSubscript base index\<close>,
    \<open>AstSymbol name\<close>, \<open>AstUnary op item\<close>, \<open>AstValue value\<close>,
    \<open>AstValueVector items\<close>, \<open>AstVector items\<close>, \<open>AstWhile test body\<close>;
  \<^item> \<open>AstOther cls\<close>, a node of a class \<open>cls\<close> for which \<open>ClojureRepr\<close> has no
    \<open>visit_\<close> method.
  A field is an \<open>option\<close> where the visitor tests it against \<open>None\<close>.
\<close>

datatype ast =
    AstAttribute ast string
  | AstBinary ast string ast
  | AstBody "ast list"
  | AstBreak
  | AstCall ast "ast list" "(string \<times> string) list"
  | AstCompare ast string ast "string option" "ast option"
  | AstDef target ast
  | AstFor target ast ast
  | AstFunction "string list" "string option" ast
  | AstIf ast ast "ast option"
  | AstImport string "string list option" "string option"
  | AstLet "target list" "ast list" ast
  | AstListFor target ast ast
  | AstObserve ast ast
  | AstReturn ast
  | AstSample ast
  | AstSlice ast "ast option" "ast option"
  | AstSubscript ast ast
  | AstSymbol string
  | AstUnary string ast
  | AstValue pyval
  | AstValueVector "pyval list"
  | AstVector "ast list"
  | AstWhile ast ast
  | AstOther string

text \<open>
  Modelled from the spec: the property \<open>start_as_int\<close> of \<open>AstSlice\<close> is not among
  the sources. The spec special-cases the slice whose lower bound is exactly one, so the
  property is the integer of a lower bound that is an integer literal, and \<open>None\<close>
  otherwise.
\<close>

fun start_as_int :: "ast option \<Rightarrow> int option" where
  "start_as_int (Some (AstValue (PyInt i))) = Some i"
| "start_as_int start = None"

fun visit_name :: "target \<Rightarrow> string" where
  "visit_name (NameStr s) = s"
| "visit_name (NameTuple ss) = ''['' @ join '', '' ss @ '']''"
| "visit_name (NameOther r) = r"

subsection \<open>The visitor\<close>

text \<open>
  Modelled from the spec: \<open>Visitor.visit\<close>, the dispatch that \<open>ClojureRepr\<close> inherits,
  is not among the sources. The spec asks for a single dispatch function that maps each
  variant to its rule and aborts with an internal error on a variant that has no rule; the
  methods of \<open>ClojureRepr\<close> call it on \<open>None\<close> and test the result against \<open>None\<close>,
  so on \<open>None\<close> it returns \<open>None\<close>. Here \<open>visit\<close> is the dispatch on a node (one
  equation per \<open>visit_\<close> method, the last one for a class without a method),
  \<open>visit_opt\<close> the dispatch on a field that may be \<open>None\<close>, and \<open>visit_all\<close> the
  comprehension \<open>[self.visit(item) for item in items]\<close>.

  \<open>visit_function\<close> appends to the list object that \<open>node.parameters\<close> refers to, so
  a call changes the tree. Every function therefore returns, next to its string, the tree
  as the call leaves it; a call that raises is \<open>Inl\<close>. The tree is taken to share no
  list object between two nodes.
\<close>

fun visit :: "ast \<Rightarrow> error + (string \<times> ast)"
  and visit_opt :: "ast option \<Rightarrow> error + (string option \<times> ast option)"
  and visit_all :: "ast list \<Rightarrow> error + (string list \<times> ast list)"
  and visit_indent :: "nat \<Rightarrow> ast \<Rightarrow> error + (string \<times> ast)"
  and visit_indent_opt :: "nat \<Rightarrow> ast option \<Rightarrow> error + (string option \<times> ast option)"
  and visit_indent_all :: "ast list \<Rightarrow> error + (string list \<times> ast list)"
  and visit_bindings :: "target list \<Rightarrow> ast list \<Rightarrow> error + (string list \<times> ast list)"
where
  "visit (AstAttribute base attr) =
     bind_r (visit base) (\<lambda>(b, base').
     Inr (''(. '' @ b @ '' '' @ attr @ '')'', AstAttribute base' attr))"
| "visit (AstBinary left op right) =
     bind_r (visit left) (\<lambda>(l, left').
     bind_r (visit right) (\<lambda>(r, right').
     Inr (''('' @ op @ '' '' @ l @ '' '' @ r @ '')'', AstBinary left' op right')))"
| "visit (AstBody items) =
     bind_r (visit_indent_all items) (\<lambda>(strs, items').
     Inr (''(do'' @ [newline] @ ''  '' @ join (newline # ''  '') strs @ '')'', AstBody items'))"
| "visit AstBreak = Inr (''(break)'', AstBreak)"
| "visit (AstCall function args keyword_args) =
     bind_r (visit function) (\<lambda>(f, function').
     bind_r (visit_all args) (\<lambda>(strs, args').
     let strs = (if length keyword_args > 0
                 then strs @ map (\<lambda>(key, v). '':'' @ key @ '' '' @ v) keyword_args
                 else strs)
     in Inr (''('' @ f @ '' '' @ join '' '' strs @ '')'', AstCall function' args' keyword_args)))"
| "visit (AstCompare left op right second_op (Some second_right)) =
     bind_r (visit left) (\<lambda>(l, left').
     bind_r (visit right) (\<lambda>(r, right').
     bind_r (visit second_right) (\<lambda>(third, second_right').
     Inr (if Some op = second_op
          then ''('' @ op @ '' '' @ l @ '' '' @ r @ '' '' @ third @ '')''
          else ''(and ('' @ op @ '' '' @ l @ '' '' @ r @ '') ('' @ format_opt second_op
                 @ '' '' @ r @ '' '' @ third @ ''))'',
          AstCompare left' op right' second_op (Some second_right')))))"
| "visit (AstCompare left op right second_op None) =
     bind_r (visit left) (\<lambda>(l, left').
     bind_r (visit right) (\<lambda>(r, right').
     Inr (''('' @ op @ '' '' @ l @ '' '' @ r @ '')'', AstCompare left' op right' second_op None)))"
| "visit (AstDef nm val) =
     (let n = visit_name nm in
      bind_r (visit_indent 2 val) (\<lambda>(v, val').
      Inr (if newline \<notin> set v
           then ''(def '' @ n @ '' '' @ v @ '')''
           else ''(def '' @ n @ [newline] @ ''  '' @ v @ '')'',
           AstDef nm val')))"
| "visit (AstFor tgt source body) =
     bind_r (visit source) (\<lambda>(src, source').
     bind_r (visit_indent 2 body) (\<lambda>(b, body').
     Inr (''(doseq ['' @ visit_name tgt @ '']'' @ [newline] @ ''  '' @ src @ '')'',
          AstFor tgt source' body')))"
| "visit (AstFunction parameters vararg body) =
     (let parameters' = (case vararg of None \<Rightarrow> parameters
                         | Some v \<Rightarrow> parameters @ [''& '' @ v])
      in bind_r (visit_indent 2 body) (\<lambda>(b, body').
         Inr (''(fn ['' @ join '' '' parameters' @ '']'' @ [newline] @ ''  '' @ b @ '')'',
              AstFunction parameters' vararg body')))"
| "visit (AstIf test if_node else_node) =
     bind_r (visit test) (\<lambda>(t, test').
     bind_r (visit_indent 2 if_node) (\<lambda>(b, if_node').
     bind_r (visit_indent_opt 2 else_node) (\<lambda>(else_body, else_node').
     Inr (case else_body of
            Some e \<Rightarrow> ''(if '' @ t @ [newline] @ ''  '' @ b @ [newline] @ ''  '' @ e @ '')''
          | None \<Rightarrow> ''(if '' @ t @ [newline] @ ''  '' @ b @ '')'',
          AstIf test' if_node' else_node'))))"
| "visit (AstImport module_name imported_names alias) =
     map_sum id (\<lambda>s. (s, AstImport module_name imported_names alias))
       (case alias of
          Some a \<Rightarrow>
            bind_r (case imported_names of
                      None \<Rightarrow> Inr ('':as '' @ a)
                    | Some names \<Rightarrow>
                        bind_r (index names 0) (\<lambda>first. Inr (''['' @ first @ '' :as '' @ a @ '']'')))
              (\<lambda>s. Inr (''(require '' @ [apostrophe] @ module_name @ '' '' @ s @ '')''))
        | None \<Rightarrow>
            (case imported_names of
               Some names \<Rightarrow>
                 if length names = 1 \<and> names ! 0 = ''*''
                 then Inr (''(use '' @ [apostrophe] @ module_name @ '')'')
                 else Inr (''(require '' @ [apostrophe] @ module_name @ '' :refer [''
                           @ join '' '' names @ ''])'')
             | None \<Rightarrow> Inr (''(require '' @ [apostrophe] @ module_name @ '')'')))"
| "visit (AstLet targets sources body) =
     bind_r (visit_bindings targets sources) (\<lambda>(bindings, sources').
     bind_r (visit_indent 2 body) (\<lambda>(b, body').
     Inr (''(let ['' @ join (newline # ''      '') bindings @ '']'' @ [newline] @ ''  '' @ b @ '')'',
          AstLet targets sources' body')))"
| "visit (AstListFor tgt source expr) =
     bind_r (visit source) (\<lambda>(src, source').
     bind_r (visit_indent 2 expr) (\<lambda>(b, expr').
     Inr (''(for '' @ visit_name tgt @ [newline] @ ''  '' @ src @ '')'',
          AstListFor tgt source' expr')))"
| "visit (AstObserve dist val) =
     bind_r (visit dist) (\<lambda>(d, dist').
     bind_r (visit val) (\<lambda>(v, val').
     Inr (''(observe '' @ d @ '' '' @ v @ '')'', AstObserve dist' val')))"
| "visit (AstReturn val) =
     bind_r (visit val) (\<lambda>(v, val'). Inr (''(return '' @ v @ '')'', AstReturn val'))"
| "visit (AstSample dist) =
     bind_r (visit dist) (\<lambda>(d, dist'). Inr (''(sample '' @ d @ '')'', AstSample dist'))"
| "visit (AstSlice base start stop) =
     bind_r (visit base) (\<lambda>(sequence, base').
     bind_r (visit_opt start) (\<lambda>(start_str, start').
     bind_r (visit_opt stop) (\<lambda>(stop_str, stop').
     Inr (case stop_str of
            None \<Rightarrow>
              if start_as_int start = Some 1 then ''(rest '' @ sequence @ '')''
              else ''(drop '' @ sequence @ '' '' @ format_opt start_str @ '')''
          | Some e \<Rightarrow>
              (case start_str of
                 None \<Rightarrow> ''(take '' @ sequence @ '' '' @ e @ '')''
               | Some b \<Rightarrow> ''(subvec '' @ sequence @ '' '' @ b @ '' '' @ e @ '')''),
          AstSlice base' start' stop'))))"
| "visit (AstSubscript base idx) =
     bind_r (visit base) (\<lambda>(sequence, base').
     bind_r (visit idx) (\<lambda>(i, idx').
     Inr (''(get '' @ sequence @ '' '' @ i @ '')'', AstSubscript base' idx')))"
| "visit (AstSymbol nm) = Inr (nm, AstSymbol nm)"
| "visit (AstUnary op item) =
     bind_r (visit item) (\<lambda>(i, item'). Inr (''('' @ op @ '' '' @ i @ '')'', AstUnary op item'))"
| "visit (AstValue v) = Inr (repr v, AstValue v)"
| "visit (AstValueVector vs) = Inr (''['' @ join '' '' (map repr vs) @ '']'', AstValueVector vs)"
| "visit (AstVector items) =
     bind_r (visit_all items) (\<lambda>(strs, items').
     Inr (''['' @ join '' '' strs @ '']'', AstVector items'))"
| "visit (AstWhile test body) =
     bind_r (visit test) (\<lambda>(t, test').
     bind_r (visit_indent 2 body) (\<lambda>(b, body').
     Inr (''(while '' @ t @ [newline] @ ''  '' @ b @ '')'', AstWhile test' body')))"
| "visit (AstOther c) = Inl InternalError"
| "visit_opt None = Inr (None, None)"
| "visit_opt (Some node) = bind_r (visit node) (\<lambda>(s, node'). Inr (Some s, Some node'))"
| "visit_all [] = Inr ([], [])"
| "visit_all (item # items) =
     bind_r (visit item) (\<lambda>(s, item').
     bind_r (visit_all items) (\<lambda>(strs, items'). Inr (s # strs, item' # items')))"
| "visit_indent indent node =
     bind_r (visit node) (\<lambda>(result, node').
     Inr (replace_newline (spaces indent) result, node'))"
| "visit_indent_opt indent None = Inr (None, None)"
| "visit_indent_opt indent (Some node) =
     bind_r (visit_indent indent node) (\<lambda>(s, node'). Inr (Some s, Some node'))"
| "visit_indent_all [] = Inr ([], [])"
| "visit_indent_all (item # items) =
     bind_r (visit_indent 2 item) (\<lambda>(s, item').
     bind_r (visit_indent_all items) (\<lambda>(strs, items'). Inr (s # strs, item' # items')))"
| "visit_bindings (tgt # targets) (source # sources) =
     bind_r (visit_indent 6 source) (\<lambda>(v, source').
     bind_r (visit_bindings targets sources) (\<lambda>(bindings, sources').
     Inr ((visit_name tgt @ '' '' @ v) # bindings, source' # sources')))"
| "visit_bindings [] sources = Inr ([], sources)"
| "visit_bindings targets [] = Inr ([], [])"

text \<open>
  \<open>dump(ast)\<close> is \<open>ClojureRepr().visit(ast)\<close>: the string it returns, and the tree as
  the call leaves it.
\<close>

definition dump :: "ast \<Rightarrow> error + (string \<times> ast)" where
  "dump tree = visit tree"

section \<open>The specification's rules, written from its words\<close>

text \<open>The default rule of the spec: CONTINUOUS gives FloatType, DISCRETE gives IntegerType.\<close>

definition scalar_of :: "DistributionType \<Rightarrow> ty" where
  "scalar_of k = (case k of CONTINUOUS \<Rightarrow> FloatType | DISCRETE \<Rightarrow> IntegerType)"

text \<open>
  The four tiers of the spec's shape-probing function: a literal nested list, a
  vector-construction node with at least one item, a data table with at least one row, and
  otherwise the declared Type (the inner size of a sequence of sequences, the size of a plain
  sequence, \<open>None\<close> in every other case).
\<close>

fun type_probe_spec :: "ty \<Rightarrow> nat option" where
  "type_probe_spec (SequenceType c (SequenceType c' i m) n) = m"
| "type_probe_spec (SequenceType c i n) = n"
| "type_probe_spec t = None"

definition rows_spec :: "pyval list \<Rightarrow> nat" where
  "rows_spec rows =
     (if list_all type_is_list rows then Max (len_value ` set rows) else length rows)"

fun probe_spec :: "code_object \<Rightarrow> nat option" where
  "probe_spec (CodeValue (PyList rows) t) = Some (rows_spec rows)"
| "probe_spec (CodeVector (x # xs) t) =
     Some (if list_all is_vector (x # xs) then Max (len_code ` set (x # xs))
           else length (x # xs))"
| "probe_spec (CodeDataSymbol (r # rs) t) = Some (rows_spec (r # rs))"
| "probe_spec other = type_probe_spec (code_type other)"

text \<open>The literal whose value is the empty list.\<close>

fun empty_literal :: "code_object \<Rightarrow> bool" where
  "empty_literal (CodeValue (PyList []) t) = True"
| "empty_literal other = False"

text \<open>
  The test of \<open>get_distribution_for_name\<close> on one descriptor, the names under which the
  spec promises to find a descriptor (the alias only when it is not empty), and the three
  names of every catalog entry, written out.
\<close>

definition matches :: "distribution \<Rightarrow> string \<Rightarrow> bool" where
  "matches d nm \<longleftrightarrow> name d = nm \<or> python_name d = nm \<or> foppl_name d = nm"

definition lookup_names :: "distribution \<Rightarrow> string list" where
  "lookup_names d = name d # python_name d # (if foppl_name d = [] then [] else [foppl_name d])"

definition names_of :: "distribution \<Rightarrow> string \<times> string \<times> string" where
  "names_of d = (name d, python_name d, foppl_name d)"

definition catalog_names :: "(string \<times> string \<times> string) list" where
  "catalog_names =
    [(''Bernoulli'', ''Bernoulli'', ''bernoulli''), (''Beta'', ''Beta'', ''beta''),
     (''Binomial'', ''Binomial'', ''binomial''), (''Categorical'', ''Categorical'', ''categorical''),
     (''Cauchy'', ''Cauchy'', ''cauchy''), (''Dirichlet'', ''Dirichlet'', ''dirichlet''),
     (''Discrete'', ''Discrete'', ''discrete''), (''Exponential'', ''Exponential'', ''exponential''),
     (''Gamma'', ''Gamma'', ''gamma''), (''HalfCauchy'', ''HalfCauchy'', ''half_cauchy''),
     (''LogGamma'', ''LogGamma'', ''''), (''LogNormal'', ''LogNormal'', ''log_normal''),
     (''Multinomial'', ''Multinomial'', ''multinomial''),
     (''MultivariateNormal'', ''MultivariateNormal'', ''mvn''), (''Normal'', ''Normal'', ''normal''),
     (''Poisson'', ''Poisson'', ''poisson''), (''Uniform'', ''Uniform'', ''uniform'')]"

fun matches3 :: "string \<times> string \<times> string \<Rightarrow> string \<Rightarrow> bool" where
  "matches3 (a, b, c) nm \<longleftrightarrow> a = nm \<or> b = nm \<or> c = nm"

fun lookup_names3 :: "string \<times> string \<times> string \<Rightarrow> string list" where
  "lookup_names3 (a, b, c) = a # b # (if c = [] then [] else [c])"

section \<open>Properties of the catalog and of shape inference\<close>

subsection \<open>Helper lemmas\<close>

lemma bind_r_simps: "bind_r (Inl e) f = Inl e" "bind_r (Inr x) f = f x"
  by (simp_all add: bind_r_def)

lemma fold_max_map: "fold max (map f xs) (f x) = Max (insert (f x) (f ` set xs))"
  using Max.set_eq_fold [of "f x" "map f xs"] by simp

lemma py_max_map: "xs \<noteq> [] \<Longrightarrow> py_max (map f xs) = Inr (Max (f ` set xs))"
  by (cases xs) (simp_all add: fold_max_map)

lemma support_size_of_type_spec: "support_size_of_type t = type_probe_spec t"
proof (cases t)
  case (SequenceType c i n)
  then show ?thesis by (cases i) (simp_all add: support_size_of_type_def)
qed (simp_all add: support_size_of_type_def)

lemma rows_support_size_spec:
  "rows \<noteq> [] \<Longrightarrow> rows_support_size rows = Inr (Some (rows_spec rows))"
  by (simp add: rows_support_size_def rows_spec_def py_max_map)

lemma probe_refines:
  assumes "\<not> empty_literal arg"
  shows "get_support_size_arg self arg = Inr (probe_spec arg)"
proof (cases arg)
  case (CodeValue v t)
  show ?thesis
  proof (cases v)
    case (PyList rows)
    with assms CodeValue have "rows \<noteq> []" by auto
    with CodeValue PyList show ?thesis by (simp add: rows_support_size_spec)
  qed (simp_all add: CodeValue support_size_of_type_spec)
next
  case (CodeVector items t)
  then show ?thesis
    by (cases items) (simp_all add: support_size_of_type_spec fold_max_map)
next
  case (CodeDataSymbol rows t)
  then show ?thesis
    by (cases rows) (simp_all add: support_size_of_type_spec rows_support_size_spec)
next
  case (CodeObject t)
  then show ?thesis by (simp add: support_size_of_type_spec)
qed

lemma probe_empty_literal:
  assumes "empty_literal arg"
  shows "get_support_size_arg self arg = Inl ValueError"
proof -
  from assms obtain t where "arg = CodeValue (PyList []) t"
    by (rule empty_literal.elims) simp_all
  then show ?thesis by (simp add: rows_support_size_def)
qed

lemma probe_total:
  "get_support_size_arg self arg =
     (if empty_literal arg then Inl ValueError else Inr (probe_spec arg))"
  by (simp add: probe_empty_literal probe_refines)

lemma get_support_size_first:
  "cls self \<noteq> BinomialDistribution \<Longrightarrow> get_support_size self (a # rest) = get_support_size_arg self a"
  by (cases "cls self") (simp_all add: get_support_size_def index_def bind_r_simps)

lemma get_support_size_second:
  "cls self = BinomialDistribution \<Longrightarrow> get_support_size self (a # b # rest) = get_support_size_arg self b"
  by (simp add: get_support_size_def index_def bind_r_simps)

lemma first_match:
  assumes "d \<in> set ds" and "matches d nm" and "\<forall>d' \<in> set ds. matches d' nm \<longrightarrow> d' = d"
  shows "get_distribution_for_name ds nm = Some d"
  using assms
proof (induction ds)
  case Nil
  then show ?case by simp
next
  case (Cons a ds)
  show ?case
  proof (cases "matches a nm")
    case True
    with Cons.prems(3) have "a = d" by simp
    with True show ?thesis by (simp add: matches_def)
  next
    case False
    with Cons.prems(1,2) have "d \<in> set ds" by auto
    moreover from Cons.prems(3) have "\<forall>d' \<in> set ds. matches d' nm \<longrightarrow> d' = d" by simp
    ultimately have "get_distribution_for_name ds nm = Some d"
      using Cons.IH Cons.prems(2) by blast
    with False show ?thesis by (simp add: matches_def)
  qed
qed

lemma names_unambiguous:
  "list_all (\<lambda>t. list_all (\<lambda>t'. list_all (\<lambda>nm. matches3 t' nm \<longrightarrow> t' = t) (lookup_names3 t)) catalog_names) catalog_names"
  by code_simp

lemma names_distinct: "distinct catalog_names"
  by code_simp

lemma catalog_names_eq: "map names_of catalog = catalog_names"
  by code_simp

lemma names_of_inj: "inj_on names_of (set catalog)" and catalog_distinct: "distinct catalog"
  using names_distinct unfolding catalog_names_eq [symmetric] by (simp_all add: distinct_map)

lemma names_of_catalog: "d \<in> set catalog \<Longrightarrow> names_of d \<in> set catalog_names"
  unfolding catalog_names_eq [symmetric] by simp

lemma matches_names_of: "matches d nm \<longleftrightarrow> matches3 (names_of d) nm"
  by (simp add: matches_def names_of_def)

lemma lookup_names_of: "lookup_names d = lookup_names3 (names_of d)"
  by (simp add: lookup_names_def names_of_def)

lemma catalog_unambiguous:
  assumes "d \<in> set catalog" "d' \<in> set catalog" "nm \<in> set (lookup_names d)" "matches d' nm"
  shows "d' = d"
proof -
  have "names_of d' = names_of d"
    using names_unambiguous names_of_catalog [OF assms(1)] names_of_catalog [OF assms(2)]
      assms(3,4)
    unfolding list_all_iff matches_names_of lookup_names_of by blast
  with names_of_inj assms(1,2) show ?thesis by (simp add: inj_on_def)
qed

lemma LogGamma_names: "names_of LogGamma = (''LogGamma'', ''LogGamma'', [])"
  by code_simp

lemma empty_name_unique:
  "list_all (\<lambda>t. matches3 t [] \<longrightarrow> t = (''LogGamma'', ''LogGamma'', [])) catalog_names"
  by code_simp

lemma LogGamma_in_catalog: "LogGamma \<in> set catalog"
  unfolding catalog_def by simp

lemma MultivariateNormal_in_catalog: "MultivariateNormal \<in> set catalog"
  unfolding catalog_def by simp

lemma foppl_map_empty_key:
  "fold (\<lambda>d m. if foppl_name d \<noteq> [] then m(foppl_name d \<mapsto> d) else m) ds m0 [] = m0 []"
  by (induction ds arbitrary: m0) simp_all

lemma rev_catalog_order: "iteration_order (rev catalog)"
  unfolding iteration_order_def distributions_def using catalog_distinct by simp

subsection \<open>Catalog lookup\<close>

text \<open>
  Claim C4. For every descriptor of the catalog and every name equal to its canonical name,
  to its runtime name or to its source alias when that is not empty, the lookup returns that
  descriptor, whatever the order in which the loop goes through the set.
\<close>

theorem lookup_round_trip:
  assumes "iteration_order ds" and "d \<in> distributions"
    and "nm = name d \<or> nm = python_name d \<or> (nm = foppl_name d \<and> foppl_name d \<noteq> [])"
  shows "get_distribution_for_name ds nm = Some d"
proof (rule first_match)
  have ds: "set ds = set catalog"
    using assms(1) unfolding iteration_order_def distributions_def by (rule conjunct2)
  have d: "d \<in> set catalog"
    using assms(2) unfolding distributions_def .
  show "d \<in> set ds"
    unfolding ds by (rule d)
  show "matches d nm"
    unfolding matches_def using assms(3) by blast
  have nm: "nm \<in> set (lookup_names d)"
    unfolding lookup_names_def using assms(3) by (cases "foppl_name d = []") simp_all
  show "\<forall>d' \<in> set ds. matches d' nm \<longrightarrow> d' = d"
    unfolding ds using catalog_unambiguous [OF d _ nm] by blast
qed


theorem lookup_round_trip_witness:
  "iteration_order (rev catalog) \<and> MultivariateNormal \<in> distributions
     \<and> foppl_name MultivariateNormal = ''mvn''
     \<and> get_distribution_for_name (rev catalog) ''mvn'' = Some MultivariateNormal"
proof -
  have b: "MultivariateNormal \<in> distributions"
    unfolding distributions_def by (rule MultivariateNormal_in_catalog)
  have c: "foppl_name MultivariateNormal = ''mvn''"
    by code_simp
  have "''mvn'' = foppl_name MultivariateNormal \<and> foppl_name MultivariateNormal \<noteq> []"
    unfolding c by simp
  then have "get_distribution_for_name (rev catalog) ''mvn'' = Some MultivariateNormal"
    using lookup_round_trip [OF rev_catalog_order b, of "''mvn''"] by blast
  with rev_catalog_order b c show ?thesis by blast
qed

text \<open>
  Claim C5 says that a lookup of the empty string finds no descriptor by its alias. The code
  does otherwise: in every iteration order \<open>get_distribution_for_name\<close> returns LogGamma
  for the empty string, because the loop compares \<open>foppl_name\<close> without the test for an
  empty alias that the comprehension of \<open>foppl_distributions_map\<close> makes, and that map has
  no entry for the empty string.
\<close>

theorem lookup_empty_alias:
  assumes "iteration_order ds"
  shows "get_distribution_for_name ds [] = Some LogGamma \<and> foppl_distributions_map ds [] = None"
proof
  have ds: "set ds = set catalog"
    using assms unfolding iteration_order_def distributions_def by (rule conjunct2)
  show "get_distribution_for_name ds [] = Some LogGamma"
  proof (rule first_match)
    show "LogGamma \<in> set ds"
      unfolding ds by (rule LogGamma_in_catalog)
    show "matches LogGamma []"
      unfolding matches_names_of LogGamma_names by simp
    show "\<forall>d' \<in> set ds. matches d' [] \<longrightarrow> d' = LogGamma"
    proof (intro ballI impI)
      fix d' assume "d' \<in> set ds" and m: "matches d' []"
      then have d': "d' \<in> set catalog" unfolding ds by simp
      from m have "matches3 (names_of d') []" unfolding matches_names_of .
      with empty_name_unique names_of_catalog [OF d']
      have "names_of d' = (''LogGamma'', ''LogGamma'', [])"
        unfolding list_all_iff by blast
      then have "names_of d' = names_of LogGamma" unfolding LogGamma_names .
      then show "d' = LogGamma"
        by (rule inj_onD [OF names_of_inj _ d' LogGamma_in_catalog])
    qed
  qed
  show "foppl_distributions_map ds [] = None"
    unfolding foppl_distributions_map_def foppl_map_empty_key by simp
qed

theorem lookup_empty_alias_witness:
  "iteration_order (rev catalog) \<and> get_distribution_for_name (rev catalog) [] = Some LogGamma
     \<and> foppl_distributions_map (rev catalog) [] = None"
  using lookup_empty_alias [OF rev_catalog_order] rev_catalog_order by simp

subsection \<open>Sample types\<close>

text \<open>
  Claim C6. For a descriptor of the base class (no override): when the vector\_sample flag
  is off the sample type is the scalar of the kind (FloatType for CONTINUOUS, IntegerType for
  DISCRETE) whatever the arguments; when the flag is on and the first argument is a
  SequenceType of size \<open>n\<close> it is the list type of size \<open>n\<close> of that scalar; when the
  flag is on and there is no first argument, or it is not a SequenceType, it is the scalar.
\<close>

theorem default_sample_type:
  assumes "cls self = Distribution"
  shows "(\<not> vector_sample self \<longrightarrow>
            get_sample_type self args = scalar_of (distribution_type self))
       \<and> (vector_sample self \<longrightarrow>
            get_sample_type self (SequenceType c i n # rest) =
              ListType (scalar_of (distribution_type self)) n)
       \<and> (vector_sample self \<and> (args = [] \<or> \<not> isinstance_SequenceType (hd args)) \<longrightarrow>
            get_sample_type self args = scalar_of (distribution_type self))"
proof -
  have g: "get_sample_type self xs = Distribution_get_sample_type self xs" for xs
    using assms by (simp add: get_sample_type_def)
  show ?thesis
  proof (cases "distribution_type self")
    case CONTINUOUS
    then show ?thesis
      by (cases args) (simp_all add: g Distribution_get_sample_type_def scalar_of_def)
  next
    case DISCRETE
    then show ?thesis
      by (cases args) (simp_all add: g Distribution_get_sample_type_def scalar_of_def)
  qed
qed

theorem default_sample_type_witness:
  "cls Dirichlet = Distribution \<and> cls Poisson = Distribution
     \<and> get_sample_type Poisson [ListType FloatType (Some 3)] = IntegerType
     \<and> get_sample_type Dirichlet [ListType FloatType (Some 3), FloatType] = ListType FloatType (Some 3)
     \<and> get_sample_type Dirichlet [FloatType] = FloatType"
proof -
  have d: "cls Dirichlet = Distribution" "vector_sample Dirichlet"
    "distribution_type Dirichlet = CONTINUOUS"
    by (simp_all add: Dirichlet_def init_def defaults_def)
  have p: "cls Poisson = Distribution" "\<not> vector_sample Poisson"
    "distribution_type Poisson = DISCRETE"
    by (simp_all add: Poisson_def init_def defaults_def)
  from default_sample_type [OF d(1), of "[FloatType]" IsListType FloatType "Some 3" "[FloatType]"]
    default_sample_type [OF p(1), of "[ListType FloatType (Some 3)]"]
  show ?thesis
    by (simp add: d p scalar_of_def ListType_def)
qed

text \<open>
  Claim C3 says that the count-like descriptor returns a length-N sequence of integers when
  vector\_sample is on and the second argument is a sequence of size N. The code does
  otherwise: \<open>BinomialDistribution.get_sample_type\<close> assigns that list type to a local
  and returns \<open>IntegerType()\<close> on every path, so the result is the scalar integer for every
  descriptor of the class and every argument list. The witness is a Binomial descriptor built
  with \<open>vector_sample=True\<close> and a second argument that is a list type of size 3.
\<close>

theorem binomial_sample_type:
  assumes "cls self = BinomialDistribution"
  shows "get_sample_type self args = IntegerType"
  using assms by (simp add: get_sample_type_def Binomial_get_sample_type_def)

theorem binomial_sample_type_witness:
  "cls (init BinomialDistribution ''Binomial'' (Some CONTINUOUS) (Some [''total_count'', ''probs''])
          (defaults \<lparr> kw_vector_sample := True \<rparr>)) = BinomialDistribution
   \<and> vector_sample (init BinomialDistribution ''Binomial'' (Some CONTINUOUS)
          (Some [''total_count'', ''probs'']) (defaults \<lparr> kw_vector_sample := True \<rparr>))
   \<and> get_sample_type (init BinomialDistribution ''Binomial'' (Some CONTINUOUS)
          (Some [''total_count'', ''probs'']) (defaults \<lparr> kw_vector_sample := True \<rparr>))
        [IntegerType, ListType FloatType (Some 3)] = IntegerType"
  using binomial_sample_type [of "init BinomialDistribution ''Binomial'' (Some CONTINUOUS)
          (Some [''total_count'', ''probs'']) (defaults \<lparr> kw_vector_sample := True \<rparr>)"
          "[IntegerType, ListType FloatType (Some 3)]"]
  by (simp add: init_def defaults_def)

text \<open>
  Claim C7, as amended. For the categorical descriptor: with one argument that is a ListType
  whose item type is a ListType, the result is a ListType of the argument's own size; with one
  argument that is any other SequenceType, the result is the scalar IntegerType; with any other
  argument, or with an argument count other than one, it is AnyType. The claim as stated
  fails on a sequence of sequences that is not a ListType of ListTypes, where the code
  returns the scalar integer (the counterexample). What the item type of the list result is
  stays open here: the code passes the class \<open>IntegerType\<close> where its siblings pass an
  instance.
\<close>

theorem categorical_sample_type:
  assumes "cls self = CategoricalDistribution"
  shows "(isinstance_ListType (get_sample_type self [ListType (ListType i m) n])
            \<and> seq_size (get_sample_type self [ListType (ListType i m) n]) = n)
       \<and> (\<not> (c = IsListType \<and> isinstance_ListType i) \<longrightarrow>
            get_sample_type self [SequenceType c i n] = IntegerType)
       \<and> ((length args \<noteq> 1 \<or> \<not> isinstance_SequenceType (hd args)) \<longrightarrow>
            get_sample_type self args = AnyType)"
proof -
  have g: "get_sample_type self xs = Categorical_get_sample_type self xs" for xs
    using assms by (simp add: get_sample_type_def)
  have 1: "isinstance_ListType (get_sample_type self [ListType (ListType i m) n])
            \<and> seq_size (get_sample_type self [ListType (ListType i m) n]) = n"
    by (simp add: g Categorical_get_sample_type_def ListType_def)
  have 2: "\<not> (c = IsListType \<and> isinstance_ListType i) \<longrightarrow>
            get_sample_type self [SequenceType c i n] = IntegerType"
    by (cases c) (simp_all add: g Categorical_get_sample_type_def)
  have 3: "(length args \<noteq> 1 \<or> \<not> isinstance_SequenceType (hd args)) \<longrightarrow>
            get_sample_type self args = AnyType"
  proof (cases args)
    case Nil
    then show ?thesis by (simp add: g Categorical_get_sample_type_def)
  next
    case (Cons a as)
    show ?thesis
    proof (cases a)
      case (SequenceType c' i' n')
      then show ?thesis using Cons by (simp add: g Categorical_get_sample_type_def)
    qed (use Cons in \<open>simp_all add: g Categorical_get_sample_type_def\<close>)
  qed
  from 1 2 3 show ?thesis by blast
qed

theorem categorical_sample_type_witness:
  "cls Categorical = CategoricalDistribution
   \<and> isinstance_ListType (get_sample_type Categorical [ListType (ListType FloatType (Some 3)) (Some 2)])
   \<and> seq_size (get_sample_type Categorical [ListType (ListType FloatType (Some 3)) (Some 2)]) = Some 2
   \<and> get_sample_type Categorical [SequenceType IsListType FloatType (Some 4)] = IntegerType
   \<and> get_sample_type Categorical [FloatType] = AnyType
   \<and> get_sample_type Categorical [] = AnyType"
proof -
  have c: "cls Categorical = CategoricalDistribution"
    by (simp add: Categorical_def init_def)
  from categorical_sample_type [OF c, of FloatType "Some 3" "Some 2" IsListType "[FloatType]"]
    categorical_sample_type [OF c, of FloatType "Some 3" "Some 4" IsListType "[]"]
  show ?thesis by (simp add: c)
qed

theorem categorical_sample_type_counterexample:
  "isinstance_SequenceType (SequenceType PlainSequence (ListType FloatType (Some 3)) (Some 2))
   \<and> isinstance_SequenceType (item_type (SequenceType PlainSequence (ListType FloatType (Some 3)) (Some 2)))
   \<and> get_sample_type Categorical [SequenceType PlainSequence (ListType FloatType (Some 3)) (Some 2)]
       = IntegerType"
  by (simp add: get_sample_type_def Categorical_get_sample_type_def ListType_def
      Categorical_def init_def)

subsection \<open>Support size\<close>

text \<open>
  Claim C8. \<open>get_support_size\<close> probes the first argument, and the second for the
  count-like descriptor. On every argument but one the probe returns what the four tiers of
  the spec give: for a literal list the longest inner list when every element is a list and
  the outer length otherwise (3 for \<open>[[1,2],[3,4,5]]\<close>, 4 for \<open>[1,2,3,4]\<close>), the same
  for a vector node with at least one item and for a data table with at least one row, and
  otherwise the size read from the declared Type. The one argument is the literal whose
  value is the empty list: there the probe raises the ValueError of \<open>max\<close> on an empty
  list and returns no size, while the vector tier and the data-table tier test for emptiness
  and fall through to the declared Type.
\<close>

theorem support_size_tiers:
  "get_support_size_arg self arg =
     (if empty_literal arg then Inl ValueError else Inr (probe_spec arg))
   \<and> (cls self \<noteq> BinomialDistribution \<longrightarrow>
        get_support_size self (arg # rest) =
          (if empty_literal arg then Inl ValueError else Inr (probe_spec arg)))
   \<and> (cls self = BinomialDistribution \<longrightarrow>
        get_support_size self (first # arg # rest) =
          (if empty_literal arg then Inl ValueError else Inr (probe_spec arg)))
   \<and> get_support_size_arg self (CodeVector [] t) = Inr (type_probe_spec t)
   \<and> get_support_size_arg self (CodeDataSymbol [] t) = Inr (type_probe_spec t)"
  using probe_total [of self arg]
  by (simp add: get_support_size_first get_support_size_second support_size_of_type_spec)

theorem support_size_tiers_witness:
  "cls Categorical \<noteq> BinomialDistribution \<and> cls Binomial = BinomialDistribution
   \<and> get_support_size Categorical
        [CodeValue (PyList [PyList [PyInt 1, PyInt 2], PyList [PyInt 3, PyInt 4, PyInt 5]]) AnyType]
       = Inr (Some 3)
   \<and> get_support_size Categorical [CodeValue (PyList [PyInt 1, PyInt 2, PyInt 3, PyInt 4]) AnyType]
       = Inr (Some 4)
   \<and> get_support_size Binomial
        [CodeObject IntegerType, CodeVector [CodeVector [] AnyType, CodeValue (PyList [PyInt 7]) AnyType] AnyType]
       = Inr (Some 1)
   \<and> get_support_size Categorical [CodeDataSymbol [PyList [PyInt 1, PyInt 2], PyInt 3] AnyType]
       = Inr (Some 2)
   \<and> get_support_size Categorical [CodeObject (ListType (ListType FloatType (Some 5)) (Some 2))]
       = Inr (Some 5)
   \<and> get_support_size Categorical [CodeValue (PyInt 3) FloatType] = Inr None
   \<and> get_support_size Categorical [CodeValue (PyList []) (ListType AnyType (Some 0))]
       = Inl ValueError
   \<and> get_support_size_arg Categorical (CodeVector [] (ListType AnyType (Some 0))) = Inr (Some 0)
   \<and> get_support_size_arg Categorical (CodeDataSymbol [] (ListType AnyType (Some 0))) = Inr (Some 0)"
proof -
  have c: "cls Categorical \<noteq> BinomialDistribution" "cls Binomial = BinomialDistribution"
    by (simp_all add: Categorical_def Binomial_def init_def)
  have m: "Max {2, 3 :: nat} = 3" "Max {0, Suc 0} = Suc 0"
    by simp_all
  from support_size_tiers [of Categorical "CodeValue (PyList [PyList [PyInt 1, PyInt 2], PyList [PyInt 3, PyInt 4, PyInt 5]]) AnyType" "[]"]
    support_size_tiers [of Categorical "CodeValue (PyList [PyInt 1, PyInt 2, PyInt 3, PyInt 4]) AnyType" "[]"]
    support_size_tiers [of Binomial "CodeVector [CodeVector [] AnyType, CodeValue (PyList [PyInt 7]) AnyType] AnyType" "[]" "CodeObject IntegerType"]
    support_size_tiers [of Categorical "CodeDataSymbol [PyList [PyInt 1, PyInt 2], PyInt 3] AnyType" "[]"]
    support_size_tiers [of Categorical "CodeObject (ListType (ListType FloatType (Some 5)) (Some 2))" "[]"]
    support_size_tiers [of Categorical "CodeValue (PyInt 3) FloatType" "[]"]
    support_size_tiers [of Categorical "CodeValue (PyList []) (ListType AnyType (Some 0))" "[]" _ "ListType AnyType (Some 0)"]
  show ?thesis
    by (simp add: c rows_spec_def ListType_def m)
qed

text \<open>
  Claim C10. On a literal whose value is the empty list the probe fails with the ValueError
  of \<open>max\<close> on an empty list: the test that every element is a list holds vacuously, and
  the literal tier has no test for emptiness. The vector tier and the data-table tier have
  one: an empty vector node and an empty data table fall through to the declared Type.
\<close>

theorem empty_literal_fails:
  "list_all type_is_list []
   \<and> get_support_size_arg self (CodeValue (PyList []) t) = Inl ValueError
   \<and> (cls self \<noteq> BinomialDistribution \<longrightarrow>
        get_support_size self (CodeValue (PyList []) t # rest) = Inl ValueError)
   \<and> get_support_size_arg self (CodeVector [] t) = Inr (support_size_of_type t)
   \<and> get_support_size_arg self (CodeDataSymbol [] t) = Inr (support_size_of_type t)"
  by (simp add: get_support_size_first rows_support_size_def)

theorem empty_literal_fails_witness:
  "cls Categorical \<noteq> BinomialDistribution
   \<and> get_support_size Categorical [CodeValue (PyList []) AnyType] = Inl ValueError"
proof -
  have c: "cls Categorical \<noteq> BinomialDistribution"
    by (simp add: Categorical_def init_def)
  from empty_literal_fails [of Categorical AnyType "[]"] c show ?thesis by simp
qed

section \<open>Properties of the renderer\<close>

subsection \<open>Slices\<close>

text \<open>
  Claim C1. \<open>visit_slice\<close> on a slice whose base renders as \<open>sequence\<close>, whose lower
  bound renders as \<open>start\<close> and whose upper bound renders as \<open>stop\<close>: with a lower bound
  only it gives \<open>(rest sequence)\<close> when the lower bound is exactly one, and otherwise the
  drop form with the sequence before the amount, \<open>(drop sequence start)\<close>; with an upper
  bound only it gives \<open>(take sequence stop)\<close>; with both bounds
  \<open>(subvec sequence start stop)\<close>. So a slice of \<open>seq\<close> from 2 renders as
  \<open>(drop seq 2)\<close>, not as \<open>(drop 2 seq)\<close>.
\<close>

theorem slice_forms:
  assumes "visit base = Inr (sequence, base')"
    and "visit start_node = Inr (start, start_node')"
    and "visit stop_node = Inr (stop, stop_node')"
  shows "(start_as_int (Some start_node) \<noteq> Some 1 \<longrightarrow>
            dump (AstSlice base (Some start_node) None) =
              Inr (''(drop '' @ sequence @ '' '' @ start @ '')'', AstSlice base' (Some start_node') None))
       \<and> (start_as_int (Some start_node) = Some 1 \<longrightarrow>
            dump (AstSlice base (Some start_node) None) =
              Inr (''(rest '' @ sequence @ '')'', AstSlice base' (Some start_node') None))
       \<and> dump (AstSlice base None (Some stop_node)) =
            Inr (''(take '' @ sequence @ '' '' @ stop @ '')'', AstSlice base' None (Some stop_node'))
       \<and> dump (AstSlice base (Some start_node) (Some stop_node)) =
            Inr (''(subvec '' @ sequence @ '' '' @ start @ '' '' @ stop @ '')'',
                 AstSlice base' (Some start_node') (Some stop_node'))"
  using assms by (simp add: dump_def bind_r_simps format_opt_def)

theorem slice_forms_witness:
  "visit (AstSymbol ''seq'') = Inr (''seq'', AstSymbol ''seq'')
   \<and> visit (AstValue (PyInt 2)) = Inr (''2'', AstValue (PyInt 2))
   \<and> start_as_int (Some (AstValue (PyInt 2))) \<noteq> Some 1
   \<and> dump (AstSlice (AstSymbol ''seq'') (Some (AstValue (PyInt 2))) None) =
       Inr (''(drop seq 2)'', AstSlice (AstSymbol ''seq'') (Some (AstValue (PyInt 2))) None)"
proof -
  have a: "visit (AstSymbol ''seq'') = Inr (''seq'', AstSymbol ''seq'')"
    by simp
  have b: "visit (AstValue (PyInt 2)) = Inr (''2'', AstValue (PyInt 2))"
    by code_simp
  have c: "start_as_int (Some (AstValue (PyInt 2))) \<noteq> Some 1"
    by simp
  from slice_forms [OF a b b] c
  have "dump (AstSlice (AstSymbol ''seq'') (Some (AstValue (PyInt 2))) None) =
       Inr (''(drop seq 2)'', AstSlice (AstSymbol ''seq'') (Some (AstValue (PyInt 2))) None)"
    by simp
  with a b c show ?thesis by blast
qed

subsection \<open>The tree after rendering\<close>

text \<open>
  Claim C2. \<open>visit_function\<close> on a function node with a variadic parameter appends the
  text \<open>& vararg\<close> to the parameter list of the node itself: the tree after \<open>dump\<close>
  differs from the tree before it, and the node rendered a second time shows the variadic
  parameter twice, \<open>(fn [x & rest & rest] ...)\<close> after \<open>(fn [x & rest] ...)\<close>.
\<close>

theorem function_parameters_grow:
  assumes "visit_indent 2 body = Inr (b, body')"
  shows "dump (AstFunction parameters (Some vararg) body) =
           Inr (''(fn ['' @ join '' '' (parameters @ [''& '' @ vararg]) @ '']'' @ [newline]
                  @ ''  '' @ b @ '')'',
                AstFunction (parameters @ [''& '' @ vararg]) (Some vararg) body')
       \<and> AstFunction (parameters @ [''& '' @ vararg]) (Some vararg) body'
           \<noteq> AstFunction parameters (Some vararg) body"
  using assms by (simp add: dump_def bind_r_simps Let_def del: visit_indent.simps)

theorem function_parameters_grow_witness:
  "visit_indent 2 (AstSymbol ''x'') = Inr (''x'', AstSymbol ''x'')
   \<and> dump (AstFunction [''x''] (Some ''rest'') (AstSymbol ''x'')) =
       Inr (''(fn [x & rest]'' @ [newline] @ ''  x)'',
            AstFunction [''x'', ''& rest''] (Some ''rest'') (AstSymbol ''x''))
   \<and> dump (AstFunction [''x'', ''& rest''] (Some ''rest'') (AstSymbol ''x'')) =
       Inr (''(fn [x & rest & rest]'' @ [newline] @ ''  x)'',
            AstFunction [''x'', ''& rest'', ''& rest''] (Some ''rest'') (AstSymbol ''x''))"
proof -
  have a: "visit_indent 2 (AstSymbol ''x'') = Inr (''x'', AstSymbol ''x'')"
    by code_simp
  from function_parameters_grow [OF a, of "[''x'']" "''rest''"]
    function_parameters_grow [OF a, of "[''x'', ''& rest'']" "''rest''"] a
  show ?thesis by simp
qed

subsection \<open>Nodes without a rule\<close>

text \<open>
  Claim C9. On a node of a class that has no \<open>visit_\<close> method, \<open>dump\<close> aborts with the
  internal error and returns no string at all; the abort passes through every way a parent
  visits the node (as an optional field, as an indented body, as the first of a list of
  items).
\<close>

theorem unknown_variant_aborts:
  "dump (AstOther c) = Inl InternalError
   \<and> (\<forall>s t. dump (AstOther c) \<noteq> Inr (s, t))
   \<and> visit_opt (Some (AstOther c)) = Inl InternalError
   \<and> visit_indent n (AstOther c) = Inl InternalError
   \<and> visit_all (AstOther c # items) = Inl InternalError
   \<and> visit_indent_all (AstOther c # items) = Inl InternalError"
  by (simp add: dump_def bind_r_simps)

end
